theory Spec2Isabelle
  imports Complex_Main
begin

section \<open>Values crossing the wallet and contract boundary\<close>

text \<open>
  The dashboard is glue between React component state and two external collaborators:
  the injected wallet / provider library and the deployed vault contract. Every call
  into them is an \<^verbatim>\<open>await\<close> that either resolves or throws, so each such call
  is modelled by its outcome, a value of a sum type with \<open>Inl\<close> for the thrown error.
  The provider library throws error objects; the fields the handlers read from them
  are kept, together with the text JavaScript produces when the object itself is
  concatenated to a string.
\<close>

datatype js_value = Undefined | NumV int | StrV string

record js_error =
  err_code :: js_value
  err_data_code :: js_value
  err_reason :: "string option"
  err_message :: "string option"
  err_text :: string

text \<open>A JavaScript number as far as \<^verbatim>\<open>Number(amount) <= 0\<close> needs it.\<close>

datatype js_number = NaN | Num rat | PosInfinity | NegInfinity

fun le_zero :: "js_number \<Rightarrow> bool" where
  "le_zero NaN = False"
| "le_zero (Num r) = (r \<le> 0)"
| "le_zero PosInfinity = False"
| "le_zero NegInfinity = True"

text \<open>Truthiness of a string-valued property that may be missing.\<close>

fun truthy :: "string option \<Rightarrow> bool" where
  "truthy None = False"
| "truthy (Some s) = (s \<noteq> [])"

record receipt =
  receipt_status :: js_value

record tx_response =
  hash :: string
  wait :: "js_error + receipt option"

text \<open>
  A contract handle answers the calls the components make on it. \<open>balances\<close> is the
  accessor of the dashboard's interface description, \<open>getBalance\<close> the one of the
  single-file component.
\<close>

record contract =
  c_invest :: "nat \<Rightarrow> js_error + tx_response"
  c_withdraw :: "js_error + tx_response"
  balances :: "string \<Rightarrow> js_error + nat"
  getBalance :: "string \<Rightarrow> js_error + nat"

record signer =
  getAddress :: "js_error + string"

record provider =
  send_eth_requestAccounts :: "js_error + unit"
  getSigner :: "js_error + signer"
  getNetwork :: "js_error + int"

text \<open>
  What the JavaScript runtime and the ethers library compute, and the contract
  constructor with the static configuration it is given. \<open>ethereum\<close> is the provider
  built around \<^verbatim>\<open>window.ethereum\<close>, \<open>None\<close> when no wallet is injected.
\<close>

record runtime =
  Number :: "string \<Rightarrow> js_number"
  parseEther :: "string \<Rightarrow> js_error + nat"
  formatEther :: "nat \<Rightarrow> string"
  newContract :: "signer \<Rightarrow> js_error + contract"
  ethereum :: "provider option"

section \<open>App.jsx: explorer lookup\<close>

definition EXPLORER_BY_CHAIN :: "(int \<times> string) list" where
  "EXPLORER_BY_CHAIN =
     [(1, ''https://etherscan.io''),
      (5, ''https://goerli.etherscan.io''),
      (11155111, ''https://sepolia.etherscan.io'')]"

definition explorerBaseForChain :: "int \<Rightarrow> string" where
  "explorerBaseForChain chainId =
     (case map_of EXPLORER_BY_CHAIN chainId of
        Some url \<Rightarrow> url
      | None \<Rightarrow> ''https://etherscan.io'')"

section \<open>App.jsx: component state\<close>

datatype tx_status = Pending | Confirmed | Failed

record app_state =
  account :: "string option"
  provider :: "provider option"
  contract :: "contract option"
  balance :: string
  amount :: string
  loading :: bool
  txStatus :: "tx_status option"
  txHash :: "string option"
  message :: string
  explorerBase :: string

text \<open>
  The initial values of the \<^verbatim>\<open>useState\<close> calls; the explorer base starts as
  \<^verbatim>\<open>EXPLORER_BY_CHAIN[1]\<close>, an entry of the table.
\<close>

definition init_state :: app_state where
  "init_state =
     \<lparr>account = None, provider = None, contract = None, balance = ''0'',
      amount = [], loading = False, txStatus = None, txHash = None,
      message = [], explorerBase = the (map_of EXPLORER_BY_CHAIN 1)\<rparr>"

text \<open>
  A handler is a sequence of state setters and external calls. It is modelled by the
  list of these effects in program order; \<open>run\<close> applies the setters to the state.
  Console output is not part of the model.
\<close>

datatype effect =
    SetAccount "string option"
  | SetProvider "provider option"
  | SetContract "contract option"
  | SetBalance string
  | SetAmount string
  | SetLoading bool
  | SetTxStatus "tx_status option"
  | SetTxHash "string option"
  | SetMessage string
  | SetExplorerBase string
  | CallGetNetwork
  | CallBalances string
  | CallInvest nat
  | CallWithdraw
  | CallWait

fun apply_effect :: "effect \<Rightarrow> app_state \<Rightarrow> app_state" where
  "apply_effect (SetAccount a) s = s\<lparr>account := a\<rparr>"
| "apply_effect (SetProvider p) s = s\<lparr>provider := p\<rparr>"
| "apply_effect (SetContract c) s = s\<lparr>contract := c\<rparr>"
| "apply_effect (SetBalance b) s = s\<lparr>balance := b\<rparr>"
| "apply_effect (SetAmount a) s = s\<lparr>amount := a\<rparr>"
| "apply_effect (SetLoading l) s = s\<lparr>loading := l\<rparr>"
| "apply_effect (SetTxStatus t) s = s\<lparr>txStatus := t\<rparr>"
| "apply_effect (SetTxHash h) s = s\<lparr>txHash := h\<rparr>"
| "apply_effect (SetMessage m) s = s\<lparr>message := m\<rparr>"
| "apply_effect (SetExplorerBase u) s = s\<lparr>explorerBase := u\<rparr>"
| "apply_effect CallGetNetwork s = s"
| "apply_effect (CallBalances a) s = s"
| "apply_effect (CallInvest v) s = s"
| "apply_effect CallWithdraw s = s"
| "apply_effect CallWait s = s"

fun run :: "effect list \<Rightarrow> app_state \<Rightarrow> app_state" where
  "run [] s = s"
| "run (e # es) s = run es (apply_effect e s)"

text \<open>The values written to the Transaction Status field, in order.\<close>

fun status_writes :: "effect list \<Rightarrow> tx_status option list" where
  "status_writes [] = []"
| "status_writes (SetTxStatus t # es) = t # status_writes es"
| "status_writes (e # es) = status_writes es"

text \<open>The addresses the balance accessor was called with, in order.\<close>

fun balance_reads :: "effect list \<Rightarrow> string list" where
  "balance_reads [] = []"
| "balance_reads (CallBalances a # es) = a # balance_reads es"
| "balance_reads (e # es) = balance_reads es"

section \<open>App.jsx: balance refresh\<close>

text \<open>\<^verbatim>\<open>err?.message ?? err\<close>\<close>

definition message_or_error :: "js_error \<Rightarrow> string" where
  "message_or_error err =
     (case err_message err of Some m \<Rightarrow> m | None \<Rightarrow> err_text err)"

text \<open>
  \<^verbatim>\<open>fetchVaultBalance(vault, addr)\<close>. The early return sits inside the
  \<^verbatim>\<open>try\<close>, so the \<^verbatim>\<open>finally\<close> block runs on that path too.
\<close>

definition fetchVaultBalance ::
  "runtime \<Rightarrow> contract option \<Rightarrow> string option \<Rightarrow> effect list" where
  "fetchVaultBalance rt vault addr =
     (case vault of
        None \<Rightarrow> []
      | Some v \<Rightarrow>
          (case addr of
             None \<Rightarrow> []
           | Some a \<Rightarrow>
               if a = [] then []
               else [SetLoading True, CallBalances a] @
                 (case balances v a of
                    Inr raw \<Rightarrow>
                      [SetBalance (formatEther rt raw), SetMessage ''Balance updated'']
                  | Inl err \<Rightarrow>
                      [SetMessage (''Failed to fetch balance: '' @ message_or_error err)])))
     @ [SetLoading False]"

text \<open>The Refresh button calls it with the defaults, the current state.\<close>

definition refresh :: "runtime \<Rightarrow> app_state \<Rightarrow> effect list" where
  "refresh rt s = fetchVaultBalance rt (contract s) (account s)"

section \<open>App.jsx: invest and withdraw\<close>

text \<open>\<^verbatim>\<open>a || b\<close> on a string-valued property that may be missing.\<close>

fun or_else :: "string option \<Rightarrow> string \<Rightarrow> string" where
  "or_else None d = d"
| "or_else (Some s) d = (if s = [] then d else s)"

text \<open>\<^verbatim>\<open>err?.reason || err?.message || err\<close>\<close>

definition reason_or_message :: "js_error \<Rightarrow> string" where
  "reason_or_message err = or_else (err_reason err) (or_else (err_message err) (err_text err))"

text \<open>\<^verbatim>\<open>err?.code === 4001 || err?.data?.code === 4001\<close>\<close>

definition user_rejected :: "js_error \<Rightarrow> bool" where
  "user_rejected err = (err_code err = NumV 4001 \<or> err_data_code err = NumV 4001)"

text \<open>\<^verbatim>\<open>receipt && receipt.status === 1\<close>\<close>

fun receipt_ok :: "receipt option \<Rightarrow> bool" where
  "receipt_ok None = False"
| "receipt_ok (Some r) = (receipt_status r = NumV 1)"

text \<open>The dash of the two confirmation messages, U+2014, as its UTF-8 bytes.\<close>

definition em_dash :: string where
  "em_dash = [CHR 0xE2, CHR 0x80, CHR 0x94]"

text \<open>The \<^verbatim>\<open>catch\<close> blocks of the two handlers.\<close>

definition invest_catch :: "js_error \<Rightarrow> effect list" where
  "invest_catch err =
     [SetMessage (if user_rejected err then ''Transaction rejected by user.''
                  else ''Investment failed: '' @ reason_or_message err),
      SetTxStatus (Some Failed)]"

definition withdraw_catch :: "js_error \<Rightarrow> effect list" where
  "withdraw_catch err =
     [SetMessage (if user_rejected err then ''Transaction rejected by user.''
                  else ''Withdrawal failed: '' @ reason_or_message err),
      SetTxStatus (Some Failed)]"

text \<open>
  \<^verbatim>\<open>invest()\<close> reads \<open>contract\<close>, \<open>amount\<close> and \<open>account\<close> from the state it was
  rendered with. The two guards return before the \<^verbatim>\<open>try\<close>; every later exit
  passes through \<^verbatim>\<open>finally\<close>.
\<close>

definition invest :: "runtime \<Rightarrow> app_state \<Rightarrow> effect list" where
  "invest rt s =
     (case contract s of
        None \<Rightarrow> [SetMessage ''Connect wallet first'']
      | Some c \<Rightarrow>
          if amount s = [] \<or> le_zero (Number rt (amount s))
          then [SetMessage ''Enter a valid amount in ETH'']
          else
            [SetTxStatus None, SetTxHash None, SetLoading True,
             SetMessage ''Preparing transaction...''] @
            (case parseEther rt (amount s) of
               Inl err \<Rightarrow> invest_catch err
             | Inr v \<Rightarrow>
                 CallInvest v #
                 (case c_invest c v of
                    Inl err \<Rightarrow> invest_catch err
                  | Inr txResponse \<Rightarrow>
                      [SetTxStatus (Some Pending), SetTxHash (Some (hash txResponse)),
                       SetMessage ''Transaction submitted. Waiting for confirmation...'',
                       CallWait] @
                      (case wait txResponse of
                         Inl err \<Rightarrow> invest_catch err
                       | Inr rcpt \<Rightarrow>
                           (if receipt_ok rcpt
                            then [SetTxStatus (Some Confirmed),
                                  SetMessage (''Investment confirmed '' @ em_dash @
                                              '' Tx: '' @ hash txResponse)]
                            else [SetTxStatus (Some Failed),
                                  SetMessage (''Transaction failed (receipt.status !== 1). Tx: ''
                                              @ hash txResponse)]) @
                           fetchVaultBalance rt (Some c) (account s) @
                           [SetAmount []]))) @
            [SetLoading False])"

definition withdraw :: "runtime \<Rightarrow> app_state \<Rightarrow> effect list" where
  "withdraw rt s =
     (case contract s of
        None \<Rightarrow> [SetMessage ''Connect wallet first'']
      | Some c \<Rightarrow>
          [SetTxStatus None, SetTxHash None, SetLoading True,
           SetMessage ''Submitting withdrawal...'', CallWithdraw] @
          (case c_withdraw c of
             Inl err \<Rightarrow> withdraw_catch err
           | Inr txResponse \<Rightarrow>
               [SetTxStatus (Some Pending), SetTxHash (Some (hash txResponse)),
                SetMessage ''Withdrawal submitted. Waiting for confirmation...'',
                CallWait] @
               (case wait txResponse of
                  Inl err \<Rightarrow> withdraw_catch err
                | Inr rcpt \<Rightarrow>
                    (if receipt_ok rcpt
                     then [SetTxStatus (Some Confirmed),
                           SetMessage (''Withdrawal confirmed '' @ em_dash @
                                       '' Tx: '' @ hash txResponse)]
                     else [SetTxStatus (Some Failed),
                           SetMessage (''Withdrawal failed '' @ em_dash @
                                       '' Tx: '' @ hash txResponse)]) @
                    fetchVaultBalance rt (Some c) (account s))) @
          [SetLoading False])"

section \<open>App.jsx: connection callback, wallet notifications, explorer link\<close>

definition handleConnected ::
  "runtime \<Rightarrow> provider \<Rightarrow> signer \<Rightarrow> contract \<Rightarrow> string \<Rightarrow> effect list" where
  "handleConnected rt prov sg vault address =
     [SetProvider (Some prov), SetAccount (Some address), SetContract (Some vault),
      SetMessage (''Wallet connected: '' @ address), CallGetNetwork] @
     (case getNetwork prov of
        Inr chainId \<Rightarrow> [SetExplorerBase (explorerBaseForChain chainId)]
      | Inl err \<Rightarrow> []) @
     fetchVaultBalance rt (Some vault) (Some address)"

text \<open>
  \<^verbatim>\<open>onAccountsChanged(accounts)\<close>; \<open>None\<close> is a missing list
  (\<^verbatim>\<open>!accounts\<close>). The listener is re-registered whenever \<open>contract\<close> changes,
  so it reads the current handle.
\<close>

definition onAccountsChanged ::
  "runtime \<Rightarrow> string list option \<Rightarrow> app_state \<Rightarrow> effect list" where
  "onAccountsChanged rt accounts s =
     (case accounts of
        None \<Rightarrow> [SetAccount None, SetContract None, SetMessage ''Disconnected'']
      | Some [] \<Rightarrow> [SetAccount None, SetContract None, SetMessage ''Disconnected'']
      | Some (a # rest) \<Rightarrow>
          [SetAccount (Some a), SetMessage (''Account changed: '' @ a)] @
          (case contract s of
             None \<Rightarrow> []
           | Some c \<Rightarrow> fetchVaultBalance rt (Some c) (Some a)))"

text \<open>
  The link of the rendered page,
  \<^verbatim>\<open>txHash && <a href={`${explorerBase}/tx/${txHash}`}>\<close>.
\<close>

definition txLink :: "app_state \<Rightarrow> string option" where
  "txLink s =
     (case txHash s of
        None \<Rightarrow> None
      | Some h \<Rightarrow> if h = [] then None else Some (explorerBase s @ ''/tx/'' @ h))"

section \<open>ConnectWallet.jsx: the wallet connector\<close>

text \<open>
  The connector owns no state. Its effects are the alerts it shows, the calls it makes
  on the provider, and the invocation of the callback. A block that can throw returns
  the effects it performed together with the exception, if any, that leaves it.
\<close>

datatype cw_effect =
    Alert string
  | CallRequestAccounts
  | CallGetSigner
  | CallGetAddress
  | NewContract
  | OnConnected provider signer contract string

type_synonym 'e block = "'e list \<times> js_error option"

definition try_catch :: "'e block \<Rightarrow> (js_error \<Rightarrow> 'e block) \<Rightarrow> 'e block" where
  "try_catch body handler =
     (case body of
        (effs, None) \<Rightarrow> (effs, None)
      | (effs, Some err) \<Rightarrow>
          (case handler err of (effs', r) \<Rightarrow> (effs @ effs', r)))"

text \<open>
  The callback is optional (\<^verbatim>\<open>onConnected?.(...)\<close>); when supplied it may throw
  synchronously, which is what it returns here.
\<close>

type_synonym callback = "provider \<Rightarrow> signer \<Rightarrow> contract \<Rightarrow> string \<Rightarrow> js_error option"

definition connect_steps :: "runtime \<Rightarrow> provider \<Rightarrow> callback option \<Rightarrow> cw_effect block" where
  "connect_steps rt prov onConnected =
     (case send_eth_requestAccounts prov of
        Inl err \<Rightarrow> ([CallRequestAccounts], Some err)
      | Inr u \<Rightarrow>
          (case getSigner prov of
             Inl err \<Rightarrow> ([CallRequestAccounts, CallGetSigner], Some err)
           | Inr sg \<Rightarrow>
               (case getAddress sg of
                  Inl err \<Rightarrow> ([CallRequestAccounts, CallGetSigner, CallGetAddress], Some err)
                | Inr addr \<Rightarrow>
                    (case newContract rt sg of
                       Inl err \<Rightarrow>
                         ([CallRequestAccounts, CallGetSigner, CallGetAddress, NewContract],
                          Some err)
                     | Inr vault \<Rightarrow>
                         (case onConnected of
                            None \<Rightarrow>
                              ([CallRequestAccounts, CallGetSigner, CallGetAddress,
                                NewContract], None)
                          | Some f \<Rightarrow>
                              ([CallRequestAccounts, CallGetSigner, CallGetAddress,
                                NewContract, OnConnected prov sg vault addr],
                               f prov sg vault addr))))))"

definition connectWallet :: "runtime \<Rightarrow> callback option \<Rightarrow> cw_effect block" where
  "connectWallet rt onConnected =
     try_catch
       (case ethereum rt of
          None \<Rightarrow> ([Alert ''MetaMask not detected''], None)
        | Some prov \<Rightarrow> connect_steps rt prov onConnected)
       (\<lambda>err. ([Alert (''Failed to connect wallet: '' @ message_or_error err)], None))"

fun callback_invoked :: "cw_effect list \<Rightarrow> bool" where
  "callback_invoked [] = False"
| "callback_invoked (OnConnected p g c a # es) = True"
| "callback_invoked (e # es) = callback_invoked es"

section \<open>ExitVault.jsx: the single-file component\<close>

record tx_record =
  entry_hash :: string
  entry_note :: string
  entry_time :: string

record ui_state =
  ui_provider :: "provider option"
  ui_signer :: "signer option"
  ui_account :: "string option"
  ui_contract :: "contract option"
  balanceEth :: string
  inputEth :: string
  status :: string
  txs :: "tx_record list"

definition ui_init :: ui_state where
  "ui_init =
     \<lparr>ui_provider = None, ui_signer = None, ui_account = None, ui_contract = None,
      balanceEth = ''0.0'', inputEth = [], status = [], txs = []\<rparr>"

text \<open>
  \<^verbatim>\<open>addTx(hash, note)\<close>; \<open>now\<close> is what
  \<^verbatim>\<open>new Date().toLocaleString()\<close> returns at the call.
\<close>

definition addTx :: "string \<Rightarrow> string \<Rightarrow> string \<Rightarrow> ui_state \<Rightarrow> ui_state" where
  "addTx now h n s =
     s\<lparr>txs := take 20 (\<lparr>entry_hash = h, entry_note = n, entry_time = now\<rparr> # txs s)\<rparr>"

text \<open>A sequence of calls, oldest first, each given as (time, hash, note).\<close>

fun addTx_all :: "(string \<times> string \<times> string) list \<Rightarrow> ui_state \<Rightarrow> ui_state" where
  "addTx_all [] s = s"
| "addTx_all ((now, h, n) # calls) s = addTx_all calls (addTx now h n s)"

definition entry_of :: "string \<times> string \<times> string \<Rightarrow> tx_record" where
  "entry_of call =
     (case call of (now, h, n) \<Rightarrow> \<lparr>entry_hash = h, entry_note = n, entry_time = now\<rparr>)"

text \<open>
  \<^verbatim>\<open>fetchBalance(c, addr)\<close>; the guard precedes the \<^verbatim>\<open>try\<close>, and the
  handler reads \<^verbatim>\<open>err.message || err\<close>.
\<close>

definition fetchBalance ::
  "runtime \<Rightarrow> contract option \<Rightarrow> string option \<Rightarrow> ui_state \<Rightarrow> ui_state" where
  "fetchBalance rt c addr s =
     (case c of
        None \<Rightarrow> s
      | Some v \<Rightarrow>
          (case addr of
             None \<Rightarrow> s
           | Some a \<Rightarrow>
               if a = [] then s
               else
                 (case getBalance v a of
                    Inr bal \<Rightarrow> s\<lparr>balanceEth := formatEther rt bal\<rparr>
                  | Inl err \<Rightarrow>
                      s\<lparr>status := ''Failed to fetch balance: '' @
                                   or_else (err_message err) (err_text err)\<rparr>)))"

text \<open>
  The component's own \<^verbatim>\<open>connectWallet()\<close>. Here the wallet check precedes the
  \<^verbatim>\<open>try\<close>. A block returns the state reached and the exception, if any, that
  leaves it. \<^verbatim>\<open>fetchBalance\<close> is started without being awaited and
  \<^verbatim>\<open>listenEvents\<close> only registers listeners, so the state evolves as it does
  under \<^verbatim>\<open>fetchBalance\<close>.
\<close>

definition ui_connect_steps ::
  "runtime \<Rightarrow> provider \<Rightarrow> ui_state \<Rightarrow> ui_state \<times> js_error option" where
  "ui_connect_steps rt browserProvider s =
     (case send_eth_requestAccounts browserProvider of
        Inl err \<Rightarrow> (s, Some err)
      | Inr u \<Rightarrow>
          (case getSigner browserProvider of
             Inl err \<Rightarrow> (s, Some err)
           | Inr sg \<Rightarrow>
               (case getAddress sg of
                  Inl err \<Rightarrow> (s, Some err)
                | Inr acct \<Rightarrow>
                    (case newContract rt sg of
                       Inl err \<Rightarrow>
                         (s\<lparr>ui_provider := Some browserProvider, ui_signer := Some sg,
                            ui_account := Some acct\<rparr>, Some err)
                     | Inr c \<Rightarrow>
                         (fetchBalance rt (Some c) (Some acct)
                            (s\<lparr>ui_provider := Some browserProvider, ui_signer := Some sg,
                               ui_account := Some acct, ui_contract := Some c,
                               status := ''Wallet connected: '' @ acct\<rparr>),
                          None)))))"

definition ui_connectWallet :: "runtime \<Rightarrow> ui_state \<Rightarrow> ui_state \<times> js_error option" where
  "ui_connectWallet rt s =
     (case ethereum rt of
        None \<Rightarrow> (s\<lparr>status := ''No injected wallet found (install MetaMask)''\<rparr>, None)
      | Some browserProvider \<Rightarrow>
          (case ui_connect_steps rt browserProvider s of
             (s', None) \<Rightarrow> (s', None)
           | (s', Some err) \<Rightarrow>
               (s'\<lparr>status := ''Failed to connect wallet: '' @
                              or_else (err_message err) (err_text err)\<rparr>, None)))"

section \<open>Mock collaborators for concrete runs\<close>

definition mock_rejection :: js_error where
  "mock_rejection =
     \<lparr>err_code = NumV 4001, err_data_code = Undefined, err_reason = None,
      err_message = Some ''User denied transaction signature.'',
      err_text = ''Error: User denied transaction signature.''\<rparr>"

definition mock_revert :: js_error where
  "mock_revert =
     \<lparr>err_code = StrV ''CALL_EXCEPTION'', err_data_code = Undefined,
      err_reason = Some ''execution reverted'',
      err_message = Some ''call revert exception'',
      err_text = ''Error: call revert exception''\<rparr>"

definition mock_tx :: "int \<Rightarrow> tx_response" where
  "mock_tx st = \<lparr>hash = ''0xabc'', wait = Inr (Some \<lparr>receipt_status = NumV st\<rparr>)\<rparr>"

text \<open>A handle whose submissions all end as given and whose accessors return 1.5 ETH.\<close>

definition mock_contract :: "js_error + tx_response \<Rightarrow> contract" where
  "mock_contract r =
     \<lparr>c_invest = (\<lambda>v. r), c_withdraw = r,
      balances = (\<lambda>a. Inr 1500000000000000000),
      getBalance = (\<lambda>a. Inr 1500000000000000000)\<rparr>"

definition failing_contract :: contract where
  "failing_contract =
     \<lparr>c_invest = (\<lambda>v. Inl mock_revert), c_withdraw = Inl mock_revert,
      balances = (\<lambda>a. Inl mock_revert), getBalance = (\<lambda>a. Inl mock_revert)\<rparr>"

definition mock_provider :: "js_error + unit \<Rightarrow> provider" where
  "mock_provider r =
     \<lparr>send_eth_requestAccounts = r,
      getSigner = Inr \<lparr>getAddress = Inr ''0xA11ce''\<rparr>,
      getNetwork = Inr 5\<rparr>"

definition mock_runtime :: "provider option \<Rightarrow> runtime" where
  "mock_runtime eth =
     \<lparr>Number = (\<lambda>s. if s = ''0.5'' then Num (1 / 2) else NaN),
      parseEther = (\<lambda>s. if s = ''0.5'' then Inr 500000000000000000 else Inl mock_revert),
      formatEther = (\<lambda>n. if n = 1500000000000000000 then ''1.5'' else ''0.0''),
      newContract = (\<lambda>sg. Inr (mock_contract (Inr (mock_tx 1)))),
      ethereum = eth\<rparr>"

definition mock_session :: "contract \<Rightarrow> app_state" where
  "mock_session c =
     init_state\<lparr>account := Some ''0xA11ce'', contract := Some c, amount := ''0.5''\<rparr>"

text \<open>The session after an investment of 0.5 ETH has been confirmed.\<close>

definition mock_confirmed :: app_state where
  "mock_confirmed =
     run (invest (mock_runtime None) (mock_session (mock_contract (Inr (mock_tx 1)))))
       (mock_session (mock_contract (Inr (mock_tx 1))))"

section \<open>Effect lists\<close>

lemma run_append: "run (xs @ ys) s = run ys (run xs s)"
  by (induction xs arbitrary: s) simp_all

lemma status_writes_append:
  "status_writes (xs @ ys) = status_writes xs @ status_writes ys"
  by (induction xs rule: status_writes.induct) simp_all

lemma balance_reads_append:
  "balance_reads (xs @ ys) = balance_reads xs @ balance_reads ys"
  by (induction xs rule: balance_reads.induct) simp_all

text \<open>A balance refresh writes neither the status nor the session nor the form.\<close>

lemma status_writes_fetch: "status_writes (fetchVaultBalance rt vault addr) = []"
  by (simp add: fetchVaultBalance_def split: option.splits sum.splits)

lemma run_fetch_frame:
  "txStatus (run (fetchVaultBalance rt vault addr) s) = txStatus s"
  "amount (run (fetchVaultBalance rt vault addr) s) = amount s"
  "account (run (fetchVaultBalance rt vault addr) s) = account s"
  "contract (run (fetchVaultBalance rt vault addr) s) = contract s"
  "provider (run (fetchVaultBalance rt vault addr) s) = provider s"
  "txHash (run (fetchVaultBalance rt vault addr) s) = txHash s"
  "explorerBase (run (fetchVaultBalance rt vault addr) s) = explorerBase s"
  "loading (run (fetchVaultBalance rt vault addr) s) = False"
  by (simp_all add: fetchVaultBalance_def split: option.splits sum.splits)

lemma balance_reads_fetch:
  "balance_reads (fetchVaultBalance rt vault addr) =
     (case vault of
        None \<Rightarrow> []
      | Some v \<Rightarrow> (case addr of None \<Rightarrow> [] | Some a \<Rightarrow> if a = [] then [] else [a]))"
  by (simp add: fetchVaultBalance_def split: option.splits sum.splits)

section \<open>Explorer links\<close>

text \<open>
  Claim C7. Explorer base resolution returns the table entry for the chain identifiers
  1, 5 and 11155111 and the mainnet root for every other chain identifier; the link
  shown for a recorded transaction hash is the explorer base, then \<open>/tx/\<close>, then the
  hash.
\<close>

theorem explorer_base_resolution:
  "explorerBaseForChain 1 = ''https://etherscan.io'' \<and>
   explorerBaseForChain 5 = ''https://goerli.etherscan.io'' \<and>
   explorerBaseForChain 11155111 = ''https://sepolia.etherscan.io'' \<and>
   (chainId \<notin> {1, 5, 11155111} \<longrightarrow> explorerBaseForChain chainId = ''https://etherscan.io'') \<and>
   (txHash s = Some h \<and> h \<noteq> [] \<longrightarrow> txLink s = Some (explorerBase s @ ''/tx/'' @ h))"
  by (simp add: explorerBaseForChain_def EXPLORER_BY_CHAIN_def txLink_def)

theorem explorer_base_resolution_witness:
  "(137::int) \<notin> {1, 5, 11155111} \<and>
   explorerBaseForChain 137 = ''https://etherscan.io'' \<and>
   txLink (init_state\<lparr>txHash := Some ''0xabc''\<rparr>) = Some ''https://etherscan.io/tx/0xabc''"
  using explorer_base_resolution [of 137 "init_state\<lparr>txHash := Some ''0xabc''\<rparr>" "''0xabc''"]
  by (simp add: init_state_def explorerBaseForChain_def EXPLORER_BY_CHAIN_def txLink_def)

section \<open>The activity log\<close>

lemma take_append_take: "take n (xs @ take n ys) = take n (xs @ ys)"
  by simp

lemma txs_addTx_all:
  "length (txs s) \<le> 20 \<Longrightarrow>
   txs (addTx_all calls s) = take 20 (rev (map entry_of calls) @ txs s)"
proof (induction calls arbitrary: s)
  case Nil
  then show ?case by simp
next
  case (Cons call calls)
  obtain now h n where call: "call = (now, h, n)" by (cases call) auto
  have len: "length (txs (addTx now h n s)) \<le> 20"
    by (simp add: addTx_def)
  have step: "txs (addTx now h n s) = take 20 (entry_of call # txs s)"
    unfolding addTx_def entry_of_def call by simp
  have "txs (addTx_all (call # calls) s) =
        take 20 (rev (map entry_of calls) @ txs (addTx now h n s))"
    using Cons.IH [OF len] call by simp
  also have "\<dots> = take 20 (rev (map entry_of calls) @ entry_of call # txs s)"
    unfolding step by (rule take_append_take)
  finally show ?case by simp
qed

text \<open>
  Claim C3. After any sequence of \<open>addTx\<close> calls on the initially empty log, the log
  has at most 20 entries and consists of the most recent calls, newest first; and a call
  on a log that already holds 20 entries puts the new entry in front and drops the last,
  that is the oldest, one.
\<close>

theorem activity_log_capped:
  "length (txs (addTx_all calls ui_init)) \<le> 20 \<and>
   txs (addTx_all calls ui_init) = take 20 (rev (map entry_of calls)) \<and>
   (length (txs s) = 20 \<longrightarrow>
      txs (addTx now h n s) =
        \<lparr>entry_hash = h, entry_note = n, entry_time = now\<rparr> # butlast (txs s))"
proof -
  have init: "length (txs ui_init) \<le> 20" by (simp add: ui_init_def)
  have eq: "txs (addTx_all calls ui_init) = take 20 (rev (map entry_of calls))"
    using txs_addTx_all [OF init, of calls] by (simp add: ui_init_def)
  have evict: "length (txs s) = 20 \<longrightarrow>
      txs (addTx now h n s) =
        \<lparr>entry_hash = h, entry_note = n, entry_time = now\<rparr> # butlast (txs s)"
    by (simp add: addTx_def butlast_conv_take)
  from eq evict show ?thesis by simp
qed

theorem activity_log_capped_witness:
  "length (txs (ui_init\<lparr>txs := replicate 20 (entry_of (''t0'', ''0x0'', ''old''))\<rparr>)) = 20 \<and>
   txs (addTx ''t1'' ''0x1'' ''Invest (sent)''
          (ui_init\<lparr>txs := replicate 20 (entry_of (''t0'', ''0x0'', ''old''))\<rparr>)) =
     \<lparr>entry_hash = ''0x1'', entry_note = ''Invest (sent)'', entry_time = ''t1''\<rparr> #
     replicate 19 (entry_of (''t0'', ''0x0'', ''old'')) \<and>
   length (txs (addTx_all (replicate 25 (''t0'', ''0x0'', ''old'')) ui_init)) = 20"
  using activity_log_capped
    [of "replicate 25 (''t0'', ''0x0'', ''old'')"
        "ui_init\<lparr>txs := replicate 20 (entry_of (''t0'', ''0x0'', ''old''))\<rparr>"
        "''t1''" "''0x1''" "''Invest (sent)''"]
  by (simp add: butlast_conv_take)

section \<open>Unfolding the handlers and the mock collaborators\<close>

lemmas mock_defs =
  mock_session_def mock_contract_def mock_runtime_def mock_tx_def init_state_def
  mock_rejection_def mock_revert_def failing_contract_def mock_provider_def
  EXPLORER_BY_CHAIN_def

lemmas handler_defs =
  invest_def withdraw_def invest_catch_def withdraw_catch_def fetchVaultBalance_def
  user_rejected_def reason_or_message_def message_or_error_def

section \<open>Balance refresh\<close>

text \<open>
  Claim C5. When the balance accessor throws during a refresh, the handler still runs
  to its end, a message naming the failure is shown and the displayed balance keeps its
  previous value; when the accessor returns, the smallest-unit integer it returned is
  formatted as an ETH string and stored. This holds for \<open>fetchVaultBalance\<close> of the
  dashboard and for \<open>fetchBalance\<close> of the single-file component.
\<close>

theorem balance_refresh_frame:
  assumes "a \<noteq> []"
  shows
  "(balances v a = Inl err \<longrightarrow>
      balance (run (fetchVaultBalance rt (Some v) (Some a)) s) = balance s \<and>
      message (run (fetchVaultBalance rt (Some v) (Some a)) s) =
        ''Failed to fetch balance: '' @ message_or_error err \<and>
      loading (run (fetchVaultBalance rt (Some v) (Some a)) s) = False) \<and>
   (balances v a = Inr raw \<longrightarrow>
      balance (run (fetchVaultBalance rt (Some v) (Some a)) s) = formatEther rt raw) \<and>
   (getBalance v a = Inl err \<longrightarrow>
      balanceEth (fetchBalance rt (Some v) (Some a) u) = balanceEth u \<and>
      status (fetchBalance rt (Some v) (Some a) u) =
        ''Failed to fetch balance: '' @ or_else (err_message err) (err_text err)) \<and>
   (getBalance v a = Inr raw \<longrightarrow>
      balanceEth (fetchBalance rt (Some v) (Some a) u) = formatEther rt raw)"
  using assms by (simp add: fetchVaultBalance_def fetchBalance_def)

theorem balance_refresh_frame_witness:
  "balance (run (fetchVaultBalance (mock_runtime None) (Some failing_contract) (Some ''0xA11ce''))
             (mock_session failing_contract)) = ''0'' \<and>
   message (run (fetchVaultBalance (mock_runtime None) (Some failing_contract) (Some ''0xA11ce''))
             (mock_session failing_contract)) = ''Failed to fetch balance: call revert exception'' \<and>
   balanceEth (fetchBalance (mock_runtime None) (Some failing_contract) (Some ''0xA11ce'') ui_init)
     = ''0.0'' \<and>
   balance (run (fetchVaultBalance (mock_runtime None) (Some (mock_contract (Inl mock_revert)))
                   (Some ''0xA11ce''))
             (mock_session failing_contract)) = ''1.5'' \<and>
   balanceEth (fetchBalance (mock_runtime None) (Some (mock_contract (Inl mock_revert)))
                 (Some ''0xA11ce'') ui_init) = ''1.5''"
  using balance_refresh_frame
    [of "''0xA11ce''" failing_contract mock_revert "mock_runtime None"
        "mock_session failing_contract" 0 ui_init]
    balance_refresh_frame
    [of "''0xA11ce''" "mock_contract (Inl mock_revert)" mock_revert "mock_runtime None"
        "mock_session failing_contract" 1500000000000000000 ui_init]
  by (simp add: failing_contract_def mock_contract_def mock_revert_def mock_runtime_def
      mock_session_def init_state_def ui_init_def message_or_error_def)

section \<open>Wallet notifications\<close>

text \<open>
  Claim C6, as stated, asks for the whole session to be cleared, the provider handle
  included. After a connection followed by an empty accounts list the provider handle
  is still the one stored at connection time.
\<close>

theorem empty_accounts_keep_provider_counterexample:
  "provider
     (run (onAccountsChanged (mock_runtime None) (Some [])
             (run (handleConnected (mock_runtime None) (mock_provider (Inr ()))
                     \<lparr>getAddress = Inr ''0xA11ce''\<rparr> failing_contract ''0xA11ce'') init_state))
          (run (handleConnected (mock_runtime None) (mock_provider (Inr ()))
                  \<lparr>getAddress = Inr ''0xA11ce''\<rparr> failing_contract ''0xA11ce'') init_state))
   = Some (mock_provider (Inr ()))"
  by (simp add: onAccountsChanged_def handleConnected_def run_append run_fetch_frame
      mock_provider_def)

text \<open>
  Claim C6, amended. An accounts-changed notification with a missing or empty list sets
  the account and the contract handle to null and the message to \<open>Disconnected\<close>, and
  changes nothing else: the provider handle stays as it was.
\<close>

theorem empty_accounts_disconnect:
  "accounts = None \<or> accounts = Some [] \<Longrightarrow>
   run (onAccountsChanged rt accounts s) s =
     s\<lparr>account := None, contract := None, message := ''Disconnected''\<rparr>"
  by (auto simp: onAccountsChanged_def)

theorem empty_accounts_disconnect_witness:
  "account (run (onAccountsChanged (mock_runtime None) (Some []) (mock_session failing_contract))
              (mock_session failing_contract)) = None \<and>
   contract (run (onAccountsChanged (mock_runtime None) (Some []) (mock_session failing_contract))
              (mock_session failing_contract)) = None \<and>
   message (run (onAccountsChanged (mock_runtime None) (Some []) (mock_session failing_contract))
              (mock_session failing_contract)) = ''Disconnected''"
  using empty_accounts_disconnect
    [of "Some []" "mock_runtime None" "mock_session failing_contract"]
  by simp

text \<open>
  Claim C9. An accounts-changed notification with a non-empty list makes the first
  address the current account and keeps the contract handle; with a contract handle
  present it then runs a balance refresh for that handle and that address, which reads
  the accessor once, for the new address, and stores the formatted result.
\<close>

theorem accounts_changed_adopts_first:
  assumes "accounts = Some (a # rest)"
  shows
  "account (run (onAccountsChanged rt accounts s) s) = Some a \<and>
   contract (run (onAccountsChanged rt accounts s) s) = contract s \<and>
   (contract s = Some c \<longrightarrow>
      onAccountsChanged rt accounts s =
        [SetAccount (Some a), SetMessage (''Account changed: '' @ a)] @
        fetchVaultBalance rt (Some c) (Some a)) \<and>
   (contract s = Some c \<and> a \<noteq> [] \<longrightarrow>
      balance_reads (onAccountsChanged rt accounts s) = [a]) \<and>
   (contract s = Some c \<and> a \<noteq> [] \<and> balances c a = Inr raw \<longrightarrow>
      balance (run (onAccountsChanged rt accounts s) s) = formatEther rt raw)"
proof -
  have acc: "account (run (onAccountsChanged rt accounts s) s) = Some a"
    using assms
    by (simp add: onAccountsChanged_def run_append run_fetch_frame split: option.splits)
  have con: "contract (run (onAccountsChanged rt accounts s) s) = contract s"
    using assms
    by (simp add: onAccountsChanged_def run_append run_fetch_frame split: option.splits)
  have eff: "contract s = Some c \<longrightarrow>
      onAccountsChanged rt accounts s =
        [SetAccount (Some a), SetMessage (''Account changed: '' @ a)] @
        fetchVaultBalance rt (Some c) (Some a)"
    using assms by (simp add: onAccountsChanged_def)
  have rd: "contract s = Some c \<and> a \<noteq> [] \<longrightarrow>
      balance_reads (onAccountsChanged rt accounts s) = [a]"
    using assms by (simp add: onAccountsChanged_def balance_reads_fetch)
  have bal: "contract s = Some c \<and> a \<noteq> [] \<and> balances c a = Inr raw \<longrightarrow>
      balance (run (onAccountsChanged rt accounts s) s) = formatEther rt raw"
    using assms by (simp add: onAccountsChanged_def fetchVaultBalance_def)
  from acc con eff rd bal show ?thesis by blast
qed

theorem accounts_changed_adopts_first_witness:
  "account (run (onAccountsChanged (mock_runtime None) (Some [''0xB0b'', ''0xA11ce''])
                  (mock_session (mock_contract (Inl mock_revert))))
              (mock_session (mock_contract (Inl mock_revert)))) = Some ''0xB0b'' \<and>
   balance_reads (onAccountsChanged (mock_runtime None) (Some [''0xB0b'', ''0xA11ce''])
                  (mock_session (mock_contract (Inl mock_revert)))) = [''0xB0b''] \<and>
   balance (run (onAccountsChanged (mock_runtime None) (Some [''0xB0b'', ''0xA11ce''])
                  (mock_session (mock_contract (Inl mock_revert))))
              (mock_session (mock_contract (Inl mock_revert)))) = ''1.5''"
  using accounts_changed_adopts_first
    [of "Some [''0xB0b'', ''0xA11ce'']" "''0xB0b''" "[''0xA11ce'']" "mock_runtime None"
        "mock_session (mock_contract (Inl mock_revert))" "mock_contract (Inl mock_revert)"
        1500000000000000000]
  by (simp add: mock_session_def mock_contract_def mock_runtime_def onAccountsChanged_def
      fetchVaultBalance_def init_state_def)

section \<open>Transaction status\<close>

lemma txStatus_run:
  "txStatus (run es s) = (if status_writes es = [] then txStatus s else last (status_writes es))"
  by (induction es arbitrary: s rule: status_writes.induct) simp_all

lemma status_writes_invest:
  assumes "contract s = Some c" "amount s \<noteq> []" "\<not> le_zero (Number rt (amount s))"
  shows "status_writes (invest rt s) =
     None #
     (case parseEther rt (amount s) of
        Inl err \<Rightarrow> [Some Failed]
      | Inr v \<Rightarrow>
          (case c_invest c v of
             Inl err \<Rightarrow> [Some Failed]
           | Inr txr \<Rightarrow>
               Some Pending #
               (case wait txr of
                  Inl err \<Rightarrow> [Some Failed]
                | Inr rc \<Rightarrow> [if receipt_ok rc then Some Confirmed else Some Failed])))"
  using assms
  by (simp add: invest_def invest_catch_def status_writes_append status_writes_fetch
      split: sum.splits)

lemma status_writes_withdraw:
  assumes "contract s = Some c"
  shows "status_writes (withdraw rt s) =
     None #
     (case c_withdraw c of
        Inl err \<Rightarrow> [Some Failed]
      | Inr txr \<Rightarrow>
          Some Pending #
          (case wait txr of
             Inl err \<Rightarrow> [Some Failed]
           | Inr rc \<Rightarrow> [if receipt_ok rc then Some Confirmed else Some Failed]))"
  using assms
  by (simp add: withdraw_def withdraw_catch_def status_writes_append status_writes_fetch
      split: sum.splits)

lemma invest_status_machine:
  assumes "contract s = Some c" "amount s \<noteq> []" "\<not> le_zero (Number rt (amount s))"
  shows "hd (invest rt s) = SetTxStatus None"
    and "status_writes (invest rt s) \<in>
        {[None, Some Failed], [None, Some Pending, Some Failed],
         [None, Some Pending, Some Confirmed]}"
    and "Some Pending \<in> set (status_writes (invest rt s)) \<longleftrightarrow>
         (\<exists>v txr. parseEther rt (amount s) = Inr v \<and> c_invest c v = Inr txr)"
    and "Some Confirmed \<in> set (status_writes (invest rt s)) \<longleftrightarrow>
         (\<exists>v txr rc. parseEther rt (amount s) = Inr v \<and> c_invest c v = Inr txr \<and>
            wait txr = Inr rc \<and> receipt_ok rc)"
    and "(\<exists>v err. parseEther rt (amount s) = Inr v \<and> c_invest c v = Inl err) \<or>
       (\<exists>v txr rc. parseEther rt (amount s) = Inr v \<and> c_invest c v = Inr txr \<and>
            wait txr = Inr rc \<and> \<not> receipt_ok rc) \<longrightarrow>
         txStatus (run (invest rt s) s) = Some Failed"
proof -
  note sw = status_writes_invest [OF assms]
  show "hd (invest rt s) = SetTxStatus None"
    using assms by (simp add: invest_def)
  show "status_writes (invest rt s) \<in>
        {[None, Some Failed], [None, Some Pending, Some Failed],
         [None, Some Pending, Some Confirmed]}"
    by (simp add: sw split: sum.splits)
  show "Some Pending \<in> set (status_writes (invest rt s)) \<longleftrightarrow>
         (\<exists>v txr. parseEther rt (amount s) = Inr v \<and> c_invest c v = Inr txr)"
    by (auto simp: sw split: sum.splits)
  show "Some Confirmed \<in> set (status_writes (invest rt s)) \<longleftrightarrow>
         (\<exists>v txr rc. parseEther rt (amount s) = Inr v \<and> c_invest c v = Inr txr \<and>
            wait txr = Inr rc \<and> receipt_ok rc)"
    by (auto simp: sw split: sum.splits)
  show "(\<exists>v err. parseEther rt (amount s) = Inr v \<and> c_invest c v = Inl err) \<or>
       (\<exists>v txr rc. parseEther rt (amount s) = Inr v \<and> c_invest c v = Inr txr \<and>
            wait txr = Inr rc \<and> \<not> receipt_ok rc) \<longrightarrow>
         txStatus (run (invest rt s) s) = Some Failed"
    by (auto simp: txStatus_run sw)
qed

lemma withdraw_status_machine:
  assumes "contract s = Some c"
  shows "hd (withdraw rt s) = SetTxStatus None"
    and "status_writes (withdraw rt s) \<in>
        {[None, Some Failed], [None, Some Pending, Some Failed],
         [None, Some Pending, Some Confirmed]}"
    and "Some Pending \<in> set (status_writes (withdraw rt s)) \<longleftrightarrow>
         (\<exists>txr. c_withdraw c = Inr txr)"
    and "Some Confirmed \<in> set (status_writes (withdraw rt s)) \<longleftrightarrow>
         (\<exists>txr rc. c_withdraw c = Inr txr \<and> wait txr = Inr rc \<and> receipt_ok rc)"
    and "(\<exists>err. c_withdraw c = Inl err) \<or>
         (\<exists>txr rc. c_withdraw c = Inr txr \<and> wait txr = Inr rc \<and> \<not> receipt_ok rc) \<longrightarrow>
         txStatus (run (withdraw rt s) s) = Some Failed"
proof -
  note sw = status_writes_withdraw [OF assms]
  show "hd (withdraw rt s) = SetTxStatus None"
    using assms by (simp add: withdraw_def)
  show "status_writes (withdraw rt s) \<in>
        {[None, Some Failed], [None, Some Pending, Some Failed],
         [None, Some Pending, Some Confirmed]}"
    by (simp add: sw split: sum.splits)
  show "Some Pending \<in> set (status_writes (withdraw rt s)) \<longleftrightarrow>
         (\<exists>txr. c_withdraw c = Inr txr)"
    by (auto simp: sw split: sum.splits)
  show "Some Confirmed \<in> set (status_writes (withdraw rt s)) \<longleftrightarrow>
         (\<exists>txr rc. c_withdraw c = Inr txr \<and> wait txr = Inr rc \<and> receipt_ok rc)"
    by (auto simp: sw split: sum.splits)
  show "(\<exists>err. c_withdraw c = Inl err) \<or>
         (\<exists>txr rc. c_withdraw c = Inr txr \<and> wait txr = Inr rc \<and> \<not> receipt_ok rc) \<longrightarrow>
         txStatus (run (withdraw rt s) s) = Some Failed"
    by (auto simp: txStatus_run sw)
qed

text \<open>
  Claim C1. On a session with a contract handle (and, for invest, an amount that passes
  the amount check) the first thing either handler does is reset the status to null;
  the values written to the status are then one of: null, failed; null, pending, failed;
  null, pending, confirmed. Pending is written exactly when the submission is accepted,
  confirmed exactly when the receipt has status 1, and the status ends as failed when
  the submission throws or the receipt has another status.
\<close>

theorem tx_status_state_machine:
  assumes "contract s = Some c"
  shows
  "(amount s \<noteq> [] \<and> \<not> le_zero (Number rt (amount s)) \<longrightarrow>
      hd (invest rt s) = SetTxStatus None \<and>
      status_writes (invest rt s) \<in>
        {[None, Some Failed], [None, Some Pending, Some Failed],
         [None, Some Pending, Some Confirmed]} \<and>
      (Some Pending \<in> set (status_writes (invest rt s)) \<longleftrightarrow>
         (\<exists>v txr. parseEther rt (amount s) = Inr v \<and> c_invest c v = Inr txr)) \<and>
      (Some Confirmed \<in> set (status_writes (invest rt s)) \<longleftrightarrow>
         (\<exists>v txr rc. parseEther rt (amount s) = Inr v \<and> c_invest c v = Inr txr \<and>
            wait txr = Inr rc \<and> receipt_ok rc)) \<and>
      ((\<exists>v err. parseEther rt (amount s) = Inr v \<and> c_invest c v = Inl err) \<or>
       (\<exists>v txr rc. parseEther rt (amount s) = Inr v \<and> c_invest c v = Inr txr \<and>
            wait txr = Inr rc \<and> \<not> receipt_ok rc) \<longrightarrow>
         txStatus (run (invest rt s) s) = Some Failed)) \<and>
   hd (withdraw rt s) = SetTxStatus None \<and>
   status_writes (withdraw rt s) \<in>
     {[None, Some Failed], [None, Some Pending, Some Failed],
      [None, Some Pending, Some Confirmed]} \<and>
   (Some Pending \<in> set (status_writes (withdraw rt s)) \<longleftrightarrow>
      (\<exists>txr. c_withdraw c = Inr txr)) \<and>
   (Some Confirmed \<in> set (status_writes (withdraw rt s)) \<longleftrightarrow>
      (\<exists>txr rc. c_withdraw c = Inr txr \<and> wait txr = Inr rc \<and> receipt_ok rc)) \<and>
   ((\<exists>err. c_withdraw c = Inl err) \<or>
    (\<exists>txr rc. c_withdraw c = Inr txr \<and> wait txr = Inr rc \<and> \<not> receipt_ok rc) \<longrightarrow>
      txStatus (run (withdraw rt s) s) = Some Failed)"
  using invest_status_machine [OF assms, of rt] withdraw_status_machine [OF assms, of rt]
  by blast

theorem tx_status_state_machine_witness:
  "status_writes (invest (mock_runtime None) (mock_session (mock_contract (Inr (mock_tx 1))))) =
     [None, Some Pending, Some Confirmed] \<and>
   status_writes (invest (mock_runtime None) (mock_session (mock_contract (Inr (mock_tx 0))))) =
     [None, Some Pending, Some Failed] \<and>
   status_writes (withdraw (mock_runtime None) (mock_session (mock_contract (Inl mock_rejection))))
     = [None, Some Failed] \<and>
   txStatus (run (withdraw (mock_runtime None) (mock_session (mock_contract (Inr (mock_tx 0)))))
               (mock_session (mock_contract (Inr (mock_tx 0))))) = Some Failed"
  using
    tx_status_state_machine
      [of "mock_session (mock_contract (Inr (mock_tx 1)))" "mock_contract (Inr (mock_tx 1))"
          "mock_runtime None"]
    tx_status_state_machine
      [of "mock_session (mock_contract (Inr (mock_tx 0)))" "mock_contract (Inr (mock_tx 0))"
          "mock_runtime None"]
    tx_status_state_machine
      [of "mock_session (mock_contract (Inl mock_rejection))" "mock_contract (Inl mock_rejection)"
          "mock_runtime None"]
  by (simp add: mock_session_def mock_contract_def mock_runtime_def mock_tx_def init_state_def
      mock_rejection_def invest_def withdraw_def invest_catch_def withdraw_catch_def
      fetchVaultBalance_def user_rejected_def)

text \<open>
  Claim C2, as stated, covers actions whose precondition check fails. Such an action
  returns before the status is reset: on the initial state the status stays null, which
  is none of pending, confirmed, failed; and after a confirmed investment has cleared
  the amount field, a second invest is turned away by the amount check and the status
  still reads confirmed.
\<close>

theorem stale_status_counterexample:
  "txStatus (run (invest (mock_runtime None) init_state) init_state)
     \<notin> {Some Pending, Some Confirmed, Some Failed} \<and>
   txStatus mock_confirmed = Some Confirmed \<and>
   invest (mock_runtime None) mock_confirmed = [SetMessage ''Enter a valid amount in ETH''] \<and>
   txStatus (run (invest (mock_runtime None) mock_confirmed) mock_confirmed) = Some Confirmed"
  by (simp add: mock_confirmed_def mock_defs handler_defs)

lemma invest_ignores_status: "invest rt (s\<lparr>txStatus := old\<rparr>) = invest rt s"
  by (simp add: invest_def cong: option.case_cong sum.case_cong if_cong)

lemma withdraw_ignores_status: "withdraw rt (s\<lparr>txStatus := old\<rparr>) = withdraw rt s"
  by (simp add: withdraw_def cong: option.case_cong sum.case_cong if_cong)

lemma txStatus_invest:
  assumes "contract s = Some c" "amount s \<noteq> []" "\<not> le_zero (Number rt (amount s))"
  shows "txStatus (run (invest rt s) s') \<in> {Some Confirmed, Some Failed}"
  by (simp add: txStatus_run status_writes_invest [OF assms] split: sum.splits)

lemma txStatus_withdraw:
  assumes "contract s = Some c"
  shows "txStatus (run (withdraw rt s) s') \<in> {Some Confirmed, Some Failed}"
  by (simp add: txStatus_run status_writes_withdraw [OF assms] split: sum.splits)

lemma txStatus_invest_indep:
  assumes "contract s = Some c" "amount s \<noteq> []" "\<not> le_zero (Number rt (amount s))"
  shows "txStatus (run (invest rt s) s') = txStatus (run (invest rt s) s'')"
  by (simp add: txStatus_run status_writes_invest [OF assms])

lemma txStatus_withdraw_indep:
  assumes "contract s = Some c"
  shows "txStatus (run (withdraw rt s) s') = txStatus (run (withdraw rt s) s'')"
  by (simp add: txStatus_run status_writes_withdraw [OF assms])

text \<open>
  Claim C2, amended. After an invest or withdraw that passes its precondition check
  (contract handle present; for invest an amount that is non-empty and not numerically
  at most zero) has run to completion, the status is one of pending, confirmed, failed
  and does not depend on the status before the action. An action whose precondition
  check fails leaves the status as it was.
\<close>

theorem status_after_action:
  "(contract s = Some c \<and> amount s \<noteq> [] \<and> \<not> le_zero (Number rt (amount s)) \<longrightarrow>
      txStatus (run (invest rt s) s) \<in> {Some Pending, Some Confirmed, Some Failed} \<and>
      txStatus (run (invest rt (s\<lparr>txStatus := old\<rparr>)) (s\<lparr>txStatus := old\<rparr>)) =
        txStatus (run (invest rt s) s)) \<and>
   (contract s = Some c \<longrightarrow>
      txStatus (run (withdraw rt s) s) \<in> {Some Pending, Some Confirmed, Some Failed} \<and>
      txStatus (run (withdraw rt (s\<lparr>txStatus := old\<rparr>)) (s\<lparr>txStatus := old\<rparr>)) =
        txStatus (run (withdraw rt s) s)) \<and>
   (contract s = None \<or> amount s = [] \<or> le_zero (Number rt (amount s)) \<longrightarrow>
      txStatus (run (invest rt s) s) = txStatus s) \<and>
   (contract s = None \<longrightarrow> txStatus (run (withdraw rt s) s) = txStatus s)"
proof -
  have a: "txStatus (run (invest rt s) s) \<in> {Some Pending, Some Confirmed, Some Failed} \<and>
      txStatus (run (invest rt (s\<lparr>txStatus := old\<rparr>)) (s\<lparr>txStatus := old\<rparr>)) =
        txStatus (run (invest rt s) s)"
    if "contract s = Some c \<and> amount s \<noteq> [] \<and> \<not> le_zero (Number rt (amount s))"
    using that txStatus_invest [of s c rt s]
      txStatus_invest_indep [of s c rt "s\<lparr>txStatus := old\<rparr>" s]
    by (auto simp: invest_ignores_status)
  have b: "txStatus (run (withdraw rt s) s) \<in> {Some Pending, Some Confirmed, Some Failed} \<and>
      txStatus (run (withdraw rt (s\<lparr>txStatus := old\<rparr>)) (s\<lparr>txStatus := old\<rparr>)) =
        txStatus (run (withdraw rt s) s)"
    if "contract s = Some c"
    using that txStatus_withdraw [of s c rt s]
      txStatus_withdraw_indep [of s c rt "s\<lparr>txStatus := old\<rparr>" s]
    by (auto simp: withdraw_ignores_status)
  have c: "contract s = None \<or> amount s = [] \<or> le_zero (Number rt (amount s)) \<longrightarrow>
      txStatus (run (invest rt s) s) = txStatus s"
    by (auto simp: invest_def split: option.splits)
  have d: "contract s = None \<longrightarrow> txStatus (run (withdraw rt s) s) = txStatus s"
    by (simp add: withdraw_def)
  from a b c d show ?thesis by blast
qed

theorem status_after_action_witness:
  "txStatus (run (invest (mock_runtime None) (mock_session (mock_contract (Inr (mock_tx 1)))))
               (mock_session (mock_contract (Inr (mock_tx 1))))) = Some Confirmed \<and>
   txStatus (run (invest (mock_runtime None)
                    ((mock_session (mock_contract (Inr (mock_tx 1))))\<lparr>txStatus := Some Failed\<rparr>))
               ((mock_session (mock_contract (Inr (mock_tx 1))))\<lparr>txStatus := Some Failed\<rparr>))
     = Some Confirmed \<and>
   txStatus (run (withdraw (mock_runtime None) (init_state\<lparr>txStatus := Some Confirmed\<rparr>))
               (init_state\<lparr>txStatus := Some Confirmed\<rparr>)) = Some Confirmed"
  using
    status_after_action
      [of "mock_session (mock_contract (Inr (mock_tx 1)))" "mock_contract (Inr (mock_tx 1))"
          "mock_runtime None" "Some Failed"]
    status_after_action
      [of "init_state\<lparr>txStatus := Some Confirmed\<rparr>" "mock_contract (Inr (mock_tx 1))"
          "mock_runtime None" "Some Failed"]
  by (simp add: mock_defs handler_defs)

section \<open>Rejected signing\<close>

text \<open>
  Claim C4. When the submission of an invest or a withdraw throws an error object whose
  code is 4001, the message is the user-rejection text, the status is failed, the
  balance accessor is not called and the displayed balance is untouched.
\<close>

theorem user_rejection_message:
  assumes "contract s = Some c" "err_code err = NumV 4001"
  shows
  "(amount s \<noteq> [] \<and> \<not> le_zero (Number rt (amount s)) \<and>
    parseEther rt (amount s) = Inr v \<and> c_invest c v = Inl err \<longrightarrow>
      message (run (invest rt s) s) = ''Transaction rejected by user.'' \<and>
      txStatus (run (invest rt s) s) = Some Failed \<and>
      balance_reads (invest rt s) = [] \<and>
      balance (run (invest rt s) s) = balance s) \<and>
   (c_withdraw c = Inl err \<longrightarrow>
      message (run (withdraw rt s) s) = ''Transaction rejected by user.'' \<and>
      txStatus (run (withdraw rt s) s) = Some Failed \<and>
      balance_reads (withdraw rt s) = [] \<and>
      balance (run (withdraw rt s) s) = balance s)"
  using assms
  by (simp add: invest_def withdraw_def invest_catch_def withdraw_catch_def user_rejected_def)

theorem user_rejection_message_witness:
  "message (run (withdraw (mock_runtime None) (mock_session (mock_contract (Inl mock_rejection))))
              (mock_session (mock_contract (Inl mock_rejection))))
     = ''Transaction rejected by user.'' \<and>
   message (run (invest (mock_runtime None) (mock_session (mock_contract (Inl mock_rejection))))
              (mock_session (mock_contract (Inl mock_rejection))))
     = ''Transaction rejected by user.'' \<and>
   balance_reads (invest (mock_runtime None) (mock_session (mock_contract (Inl mock_rejection))))
     = []"
  using user_rejection_message
    [of "mock_session (mock_contract (Inl mock_rejection))" "mock_contract (Inl mock_rejection)"
        mock_rejection "mock_runtime None" 500000000000000000]
  by (simp add: mock_defs)

section \<open>Refresh and form reset after a receipt\<close>

text \<open>
  Claim C10, as stated, has the amount field preserved when the transaction fails. An
  investment of 0.5 ETH whose receipt has status 0 ends with the status failed and the
  amount field empty.
\<close>

theorem amount_cleared_on_failed_receipt_counterexample:
  "amount (mock_session (mock_contract (Inr (mock_tx 0)))) = ''0.5'' \<and>
   txStatus (run (invest (mock_runtime None) (mock_session (mock_contract (Inr (mock_tx 0)))))
               (mock_session (mock_contract (Inr (mock_tx 0))))) = Some Failed \<and>
   amount (run (invest (mock_runtime None) (mock_session (mock_contract (Inr (mock_tx 0)))))
               (mock_session (mock_contract (Inr (mock_tx 0))))) = []"
  by (simp add: mock_defs handler_defs)

lemma invest_after_receipt:
  assumes "contract s = Some c" "amount s \<noteq> []" "\<not> le_zero (Number rt (amount s))"
    and "parseEther rt (amount s) = Inr v" "c_invest c v = Inr txr" "wait txr = Inr rc"
  shows "invest rt s =
     [SetTxStatus None, SetTxHash None, SetLoading True,
      SetMessage ''Preparing transaction...'', CallInvest v,
      SetTxStatus (Some Pending), SetTxHash (Some (hash txr)),
      SetMessage ''Transaction submitted. Waiting for confirmation...'', CallWait] @
     (if receipt_ok rc
      then [SetTxStatus (Some Confirmed),
            SetMessage (''Investment confirmed '' @ em_dash @ '' Tx: '' @ hash txr)]
      else [SetTxStatus (Some Failed),
            SetMessage (''Transaction failed (receipt.status !== 1). Tx: '' @ hash txr)]) @
     fetchVaultBalance rt (Some c) (account s) @ [SetAmount [], SetLoading False]"
  using assms by (simp add: invest_def)

lemma withdraw_after_receipt:
  assumes "contract s = Some c" "c_withdraw c = Inr txr" "wait txr = Inr rc"
  shows "withdraw rt s =
     [SetTxStatus None, SetTxHash None, SetLoading True,
      SetMessage ''Submitting withdrawal...'', CallWithdraw,
      SetTxStatus (Some Pending), SetTxHash (Some (hash txr)),
      SetMessage ''Withdrawal submitted. Waiting for confirmation...'', CallWait] @
     (if receipt_ok rc
      then [SetTxStatus (Some Confirmed),
            SetMessage (''Withdrawal confirmed '' @ em_dash @ '' Tx: '' @ hash txr)]
      else [SetTxStatus (Some Failed),
            SetMessage (''Withdrawal failed '' @ em_dash @ '' Tx: '' @ hash txr)]) @
     fetchVaultBalance rt (Some c) (account s) @ [SetLoading False]"
  using assms by (simp add: withdraw_def)

lemma amount_withdraw: "amount (run (withdraw rt s) s') = amount s'"
  by (simp add: withdraw_def withdraw_catch_def run_append run_fetch_frame
      split: option.splits sum.splits)

text \<open>
  Claim C10, amended. When the submission of an invest or a withdraw is accepted and a
  receipt is received, the handler goes on to a balance refresh for the contract handle
  and the current account, whatever the receipt's status; invest then clears the amount
  field, for a receipt of either status. When the amount conversion, the submission or
  the wait throws, invest leaves the amount field as it was and reads no balance.
  Withdraw never changes the amount field.
\<close>

theorem refresh_after_receipt:
  assumes "contract s = Some c"
  shows
  "(amount s \<noteq> [] \<and> \<not> le_zero (Number rt (amount s)) \<and>
    parseEther rt (amount s) = Inr v \<and> c_invest c v = Inr txr \<and> wait txr = Inr rc \<longrightarrow>
      (\<exists>pre. invest rt s =
         pre @ fetchVaultBalance rt (Some c) (account s) @ [SetAmount [], SetLoading False]) \<and>
      (account s = Some a \<and> a \<noteq> [] \<longrightarrow> balance_reads (invest rt s) = [a]) \<and>
      amount (run (invest rt s) s) = []) \<and>
   (amount s \<noteq> [] \<and> \<not> le_zero (Number rt (amount s)) \<and>
    (parseEther rt (amount s) = Inl err \<or>
     (parseEther rt (amount s) = Inr v \<and>
        (c_invest c v = Inl err \<or> (c_invest c v = Inr txr \<and> wait txr = Inl err)))) \<longrightarrow>
      amount (run (invest rt s) s) = amount s \<and> balance_reads (invest rt s) = []) \<and>
   (c_withdraw c = Inr txw \<and> wait txw = Inr rcw \<longrightarrow>
      (\<exists>pre. withdraw rt s =
         pre @ fetchVaultBalance rt (Some c) (account s) @ [SetLoading False]) \<and>
      (account s = Some a \<and> a \<noteq> [] \<longrightarrow> balance_reads (withdraw rt s) = [a])) \<and>
   amount (run (withdraw rt s) s) = amount s"
proof -
  have i1: "(\<exists>pre. invest rt s =
         pre @ fetchVaultBalance rt (Some c) (account s) @ [SetAmount [], SetLoading False]) \<and>
      (account s = Some a \<and> a \<noteq> [] \<longrightarrow> balance_reads (invest rt s) = [a]) \<and>
      amount (run (invest rt s) s) = []"
    if h: "amount s \<noteq> [] \<and> \<not> le_zero (Number rt (amount s)) \<and>
       parseEther rt (amount s) = Inr v \<and> c_invest c v = Inr txr \<and> wait txr = Inr rc"
  proof -
    have eq: "invest rt s =
     [SetTxStatus None, SetTxHash None, SetLoading True,
      SetMessage ''Preparing transaction...'', CallInvest v,
      SetTxStatus (Some Pending), SetTxHash (Some (hash txr)),
      SetMessage ''Transaction submitted. Waiting for confirmation...'', CallWait] @
     (if receipt_ok rc
      then [SetTxStatus (Some Confirmed),
            SetMessage (''Investment confirmed '' @ em_dash @ '' Tx: '' @ hash txr)]
      else [SetTxStatus (Some Failed),
            SetMessage (''Transaction failed (receipt.status !== 1). Tx: '' @ hash txr)]) @
     fetchVaultBalance rt (Some c) (account s) @ [SetAmount [], SetLoading False]"
      using invest_after_receipt [OF assms, of rt v txr rc] h by blast
    have ex: "\<exists>pre. invest rt s =
         pre @ fetchVaultBalance rt (Some c) (account s) @ [SetAmount [], SetLoading False]"
      by (subst eq, simp only: append_assoc [symmetric]) blast
    have rd: "account s = Some a \<and> a \<noteq> [] \<longrightarrow> balance_reads (invest rt s) = [a]"
      by (simp add: eq balance_reads_append balance_reads_fetch)
    have am: "amount (run (invest rt s) s) = []"
      by (simp add: eq run_append)
    from ex rd am show ?thesis by blast
  qed
  have i2: "amount (run (invest rt s) s) = amount s \<and> balance_reads (invest rt s) = []"
    if h: "amount s \<noteq> [] \<and> \<not> le_zero (Number rt (amount s)) \<and>
    (parseEther rt (amount s) = Inl err \<or>
     (parseEther rt (amount s) = Inr v \<and>
        (c_invest c v = Inl err \<or> (c_invest c v = Inr txr \<and> wait txr = Inl err))))"
    using assms h by (auto simp: invest_def invest_catch_def)
  have w1: "(\<exists>pre. withdraw rt s =
         pre @ fetchVaultBalance rt (Some c) (account s) @ [SetLoading False]) \<and>
      (account s = Some a \<and> a \<noteq> [] \<longrightarrow> balance_reads (withdraw rt s) = [a])"
    if h: "c_withdraw c = Inr txw \<and> wait txw = Inr rcw"
  proof -
    have eq: "withdraw rt s =
     [SetTxStatus None, SetTxHash None, SetLoading True,
      SetMessage ''Submitting withdrawal...'', CallWithdraw,
      SetTxStatus (Some Pending), SetTxHash (Some (hash txw)),
      SetMessage ''Withdrawal submitted. Waiting for confirmation...'', CallWait] @
     (if receipt_ok rcw
      then [SetTxStatus (Some Confirmed),
            SetMessage (''Withdrawal confirmed '' @ em_dash @ '' Tx: '' @ hash txw)]
      else [SetTxStatus (Some Failed),
            SetMessage (''Withdrawal failed '' @ em_dash @ '' Tx: '' @ hash txw)]) @
     fetchVaultBalance rt (Some c) (account s) @ [SetLoading False]"
      using withdraw_after_receipt [OF assms, of txw rcw rt] h by blast
    have ex: "\<exists>pre. withdraw rt s =
         pre @ fetchVaultBalance rt (Some c) (account s) @ [SetLoading False]"
      by (subst eq, simp only: append_assoc [symmetric]) blast
    have rd: "account s = Some a \<and> a \<noteq> [] \<longrightarrow> balance_reads (withdraw rt s) = [a]"
      by (simp add: eq balance_reads_append balance_reads_fetch)
    from ex rd show ?thesis by blast
  qed
  have w2: "amount (run (withdraw rt s) s) = amount s"
    by (rule amount_withdraw)
  from i1 i2 w1 w2 show ?thesis by blast
qed

theorem refresh_after_receipt_witness:
  "balance_reads (invest (mock_runtime None) (mock_session (mock_contract (Inr (mock_tx 0)))))
     = [''0xA11ce''] \<and>
   amount (run (invest (mock_runtime None) (mock_session (mock_contract (Inr (mock_tx 0)))))
             (mock_session (mock_contract (Inr (mock_tx 0))))) = [] \<and>
   balance_reads (withdraw (mock_runtime None) (mock_session (mock_contract (Inr (mock_tx 0)))))
     = [''0xA11ce''] \<and>
   amount (run (invest (mock_runtime None) (mock_session (mock_contract (Inl mock_revert))))
             (mock_session (mock_contract (Inl mock_revert)))) = ''0.5'' \<and>
   amount (run (withdraw (mock_runtime None) (mock_session (mock_contract (Inr (mock_tx 1)))))
             (mock_session (mock_contract (Inr (mock_tx 1))))) = ''0.5''"
  using
    refresh_after_receipt
      [of "mock_session (mock_contract (Inr (mock_tx 0)))" "mock_contract (Inr (mock_tx 0))"
          "mock_runtime None" 500000000000000000 "mock_tx 0"
          "Some \<lparr>receipt_status = NumV 0\<rparr>" "''0xA11ce''" mock_revert
          "mock_tx 0" "Some \<lparr>receipt_status = NumV 0\<rparr>"]
    refresh_after_receipt
      [of "mock_session (mock_contract (Inl mock_revert))" "mock_contract (Inl mock_revert)"
          "mock_runtime None" 500000000000000000 "mock_tx 0"
          "Some \<lparr>receipt_status = NumV 0\<rparr>" "''0xA11ce''" mock_revert
          "mock_tx 0" "Some \<lparr>receipt_status = NumV 0\<rparr>"]
    refresh_after_receipt
      [of "mock_session (mock_contract (Inr (mock_tx 1)))" "mock_contract (Inr (mock_tx 1))"
          "mock_runtime None" 500000000000000000 "mock_tx 1"
          "Some \<lparr>receipt_status = NumV 1\<rparr>" "''0xA11ce''" mock_revert
          "mock_tx 1" "Some \<lparr>receipt_status = NumV 1\<rparr>"]
  by (simp add: mock_defs)

section \<open>The wallet connector\<close>

lemma try_catch_returns:
  "(\<And>err. snd (handler err) = None) \<Longrightarrow> snd (try_catch body handler) = None"
proof -
  assume h: "\<And>err. snd (handler err) = None"
  obtain effs r where body: "body = (effs, r)" by (cases body)
  show ?thesis
  proof (cases r)
    case None
    with body show ?thesis by (simp add: try_catch_def)
  next
    case (Some err)
    obtain effs' r' where hd: "handler err = (effs', r')" by (cases "handler err")
    from h [of err] hd have "r' = None" by simp
    with body Some hd show ?thesis by (simp add: try_catch_def)
  qed
qed

lemma ui_connectWallet_returns: "snd (ui_connectWallet rt u) = None"
  by (simp add: ui_connectWallet_def split: option.splits prod.splits)

text \<open>
  Claim C8. Neither connector lets an exception escape. Without an injected wallet the
  connector of ConnectWallet.jsx shows one alert and does nothing else, in particular
  it does not invoke the callback, and the connector of ExitVault.jsx only sets the
  status text. When a step of the connection throws, the effects up to the throw are
  followed by an alert, respectively a status text, carrying the error's message.
\<close>

theorem connector_reports_failures:
  "snd (connectWallet rt onConnected) = None \<and>
   snd (ui_connectWallet rt u) = None \<and>
   (ethereum rt = None \<longrightarrow>
      connectWallet rt onConnected = ([Alert ''MetaMask not detected''], None) \<and>
      \<not> callback_invoked (fst (connectWallet rt onConnected)) \<and>
      ui_connectWallet rt u =
        (u\<lparr>status := ''No injected wallet found (install MetaMask)''\<rparr>, None)) \<and>
   (ethereum rt = Some prov \<and> connect_steps rt prov onConnected = (effs, Some err) \<longrightarrow>
      connectWallet rt onConnected =
        (effs @ [Alert (''Failed to connect wallet: '' @ message_or_error err)], None)) \<and>
   (ethereum rt = Some prov \<and> ui_connect_steps rt prov u = (u', Some err) \<longrightarrow>
      ui_connectWallet rt u =
        (u'\<lparr>status := ''Failed to connect wallet: '' @
                        or_else (err_message err) (err_text err)\<rparr>, None))"
proof -
  have a: "snd (connectWallet rt onConnected) = None"
    unfolding connectWallet_def by (rule try_catch_returns) simp
  have b: "snd (ui_connectWallet rt u) = None"
    by (rule ui_connectWallet_returns)
  have c: "ethereum rt = None \<longrightarrow>
      connectWallet rt onConnected = ([Alert ''MetaMask not detected''], None) \<and>
      \<not> callback_invoked (fst (connectWallet rt onConnected)) \<and>
      ui_connectWallet rt u =
        (u\<lparr>status := ''No injected wallet found (install MetaMask)''\<rparr>, None)"
    by (simp add: connectWallet_def try_catch_def ui_connectWallet_def)
  have d: "ethereum rt = Some prov \<and> connect_steps rt prov onConnected = (effs, Some err) \<longrightarrow>
      connectWallet rt onConnected =
        (effs @ [Alert (''Failed to connect wallet: '' @ message_or_error err)], None)"
    by (simp add: connectWallet_def try_catch_def)
  have e: "ethereum rt = Some prov \<and> ui_connect_steps rt prov u = (u', Some err) \<longrightarrow>
      ui_connectWallet rt u =
        (u'\<lparr>status := ''Failed to connect wallet: '' @
                        or_else (err_message err) (err_text err)\<rparr>, None)"
    by (simp add: ui_connectWallet_def)
  from a b c d e show ?thesis by blast
qed

theorem connector_reports_failures_witness:
  "connectWallet (mock_runtime None) (Some (\<lambda>p g c a. None)) =
     ([Alert ''MetaMask not detected''], None) \<and>
   connectWallet (mock_runtime (Some (mock_provider (Inl mock_rejection))))
       (Some (\<lambda>p g c a. None)) =
     ([CallRequestAccounts,
       Alert ''Failed to connect wallet: User denied transaction signature.''], None) \<and>
   ui_connectWallet (mock_runtime (Some (mock_provider (Inl mock_rejection)))) ui_init =
     (ui_init\<lparr>status := ''Failed to connect wallet: User denied transaction signature.''\<rparr>,
      None)"
  using
    connector_reports_failures
      [of "mock_runtime None" "Some (\<lambda>p g c a. None)" ui_init
          "mock_provider (Inl mock_rejection)" "[CallRequestAccounts]" mock_rejection ui_init]
    connector_reports_failures
      [of "mock_runtime (Some (mock_provider (Inl mock_rejection)))" "Some (\<lambda>p g c a. None)"
          ui_init "mock_provider (Inl mock_rejection)" "[CallRequestAccounts]" mock_rejection
          ui_init]
  by (simp add: mock_defs connect_steps_def ui_connect_steps_def message_or_error_def)

end
